theory Spec2Isabelle
  imports Main
begin

section \<open>The command line switch\<close>

text \<open>
  A shallow embedding of \<^verbatim>\<open>homeassistant/components/command_line/switch.py\<close>:
  the class \<^verbatim>\<open>CommandSwitch\<close>, its state query, its guarded refresh and its
  two actions. The subprocess helpers, the template engine and the host entity
  framework are not part of that file; their results enter the model as an
  environment, and every call the switch makes to them is recorded in a trace.
\<close>

subsection \<open>Python values and strings\<close>

text \<open>
  \<^verbatim>\<open>_query_state\<close> returns \<^verbatim>\<open>str | int | None\<close>: the captured output, the
  boolean of the exit-code comparison, or nothing.
\<close>

datatype pyval = PStr string | PBool bool | PNone

text \<open>Python's \<^verbatim>\<open>str(x)\<close> on these values.\<close>

fun py_str :: "pyval \<Rightarrow> string" where
  "py_str (PStr s) = s"
| "py_str (PBool True) = ''True''"
| "py_str (PBool False) = ''False''"
| "py_str PNone = ''None''"

text \<open>
  \<^verbatim>\<open>str.lower()\<close>. A string is a list of bytes; the letters A to Z go to a to z and
  every other byte is kept, which is what decides a comparison with the ASCII
  literal \<^verbatim>\<open>"true"\<close>.
\<close>

definition char_lower :: "char \<Rightarrow> char" where
  "char_lower c =
     (case map_of (zip ''ABCDEFGHIJKLMNOPQRSTUVWXYZ'' ''abcdefghijklmnopqrstuvwxyz'') c of
        Some d \<Rightarrow> d
      | None \<Rightarrow> c)"

definition lower :: "string \<Rightarrow> string" where
  "lower s = map char_lower s"

text \<open>
  Truthiness of an optional string (\<^verbatim>\<open>if x:\<close>): \<^verbatim>\<open>None\<close> and the empty string
  are false.
\<close>

fun truthy :: "string option \<Rightarrow> bool" where
  "truthy None = False"
| "truthy (Some s) = (s \<noteq> [])"

subsection \<open>The environment\<close>

datatype level = INFO | WARNING | ERROR

datatype logarg = ArgStr string | ArgInterval int

text \<open>A Python exception, by the name of its class.\<close>

datatype pyerr = PyError string

text \<open>
  What the switch does to the outside: log records (level, format string,
  arguments), subprocess invocations, calls to the host framework, and an
  exception that leaves the running coroutine and reaches its caller.
\<close>

datatype event =
    Log level string "logarg list"
  | CallShell string int bool
  | CheckOutput string int
  | Render string
  | ProcessManualData string
  | UpdateHaState bool
  | ScheduleUpdateHaState
  | Raises pyerr

text \<open>
  The two helpers of \<^verbatim>\<open>.utils\<close>, as functions of the outside world \<open>'w\<close>:
  \<^verbatim>\<open>call_shell_with_timeout(command, timeout, log_return_code)\<close> gives an exit
  code, \<^verbatim>\<open>check_output_or_log(command, timeout)\<close> gives the captured output or
  \<^verbatim>\<open>None\<close>. Both may change the world, so two runs of one command need not agree.
  They are taken to return, as their signatures (\<^verbatim>\<open>-> int\<close>, \<^verbatim>\<open>-> str | None\<close>) say;
  so are the calls into the host framework.
\<close>

record 'w shell =
  call_shell_with_timeout :: "string \<Rightarrow> int \<Rightarrow> bool \<Rightarrow> 'w \<Rightarrow> int \<times> 'w"
  check_output_or_log :: "string \<Rightarrow> int \<Rightarrow> 'w \<Rightarrow> string option \<times> 'w"

text \<open>
  A value template is the function it computes:
  \<^verbatim>\<open>async_render_with_possible_json_value(payload, None)\<close> gives the rendered
  text (\<open>Inr (Some text)\<close>), or the error value \<^verbatim>\<open>None\<close> when the render fails with
  an error it handles itself (\<open>Inr None\<close>), or it raises (\<open>Inl\<close>): the switch
  has no \<^verbatim>\<open>try\<close> around the call.
\<close>

type_synonym template = "string \<Rightarrow> pyerr + string option"

subsection \<open>The switch\<close>

text \<open>
  The attributes of \<^verbatim>\<open>CommandSwitch\<close>. \<open>process_updates\<close> is the lazily created
  \<^verbatim>\<open>asyncio.Lock\<close>: \<open>None\<close> before the first poll, then \<open>Some locked\<close>.
  \<open>trace\<close> and \<open>world\<close> are the environment carried along.
\<close>

record 'w switch =
  name :: string
  entity_id :: string
  attr_is_on :: "bool option"
  command_on :: string
  command_off :: string
  command_state :: "string option"
  value_template :: "template option"
  timeout :: int
  scan_interval :: int
  process_updates :: "bool option"
  trace :: "event list"
  world :: 'w

definition emit :: "event \<Rightarrow> 'w switch \<Rightarrow> 'w switch" where
  "emit e s = s\<lparr>trace := trace s @ [e]\<rparr>"

text \<open>The exceptions recorded in a trace, in the order they were raised.\<close>

fun exceptions :: "event list \<Rightarrow> pyerr list" where
  "exceptions [] = []"
| "exceptions (Raises e # evs) = e # exceptions evs"
| "exceptions (ev # evs) = exceptions evs"

definition surfaced :: "'w switch \<Rightarrow> pyerr list" where
  "surfaced s = exceptions (trace s)"

text \<open>\<^verbatim>\<open>__init__\<close>; \<^verbatim>\<open>ENTITY_ID_FORMAT\<close> is \<^verbatim>\<open>"switch.{}"\<close>.\<close>

definition init ::
  "string \<Rightarrow> string \<Rightarrow> string \<Rightarrow> string \<Rightarrow> string option \<Rightarrow> template option \<Rightarrow> int \<Rightarrow> int
     \<Rightarrow> 'w \<Rightarrow> 'w switch" where
  "init nm object_id cmd_on cmd_off cmd_state tmpl tmo interval w =
     \<lparr> name = nm,
       entity_id = ''switch.'' @ object_id,
       attr_is_on = Some False,
       command_on = cmd_on,
       command_off = cmd_off,
       command_state = cmd_state,
       value_template = tmpl,
       timeout = tmo,
       scan_interval = interval,
       process_updates = None,
       trace = [],
       world = w \<rparr>"

text \<open>
  \<^verbatim>\<open>_switch\<close>: run an action command, report whether it exited with 0.
  \<open>switch_begin\<close> is the part up to the \<^verbatim>\<open>await\<close> (the log record, and the job
  handed to the executor, which invokes the helper); \<open>switch_resume\<close> is the
  part from the completion of that job on.
\<close>

definition switch_begin :: "string \<Rightarrow> 'w switch \<Rightarrow> 'w switch" where
  "switch_begin command s =
     (let s1 = emit (Log INFO ''Running command: %s'' [ArgStr command]) s
      in emit (CallShell command (timeout s1) True) s1)"

definition switch_resume :: "'w shell \<Rightarrow> string \<Rightarrow> 'w switch \<Rightarrow> bool \<times> 'w switch" where
  "switch_resume sh command s =
     (let (code, w) = call_shell_with_timeout sh command (timeout s) True (world s);
          s2 = s\<lparr>world := w\<rparr>;
          success = (code = 0);
          s3 = (if \<not> success
                then emit (Log ERROR ''Command failed: %s'' [ArgStr command]) s2 else s2)
      in (success, s3))"

definition do_switch :: "'w shell \<Rightarrow> string \<Rightarrow> 'w switch \<Rightarrow> bool \<times> 'w switch" where
  "do_switch sh command s = switch_resume sh command (switch_begin command s)"

text \<open>\<^verbatim>\<open>_query_state_value\<close>\<close>

definition query_state_value :: "'w shell \<Rightarrow> string \<Rightarrow> 'w switch \<Rightarrow> string option \<times> 'w switch" where
  "query_state_value sh command s =
     (let s1 = emit (Log INFO ''Running state value command: %s'' [ArgStr command]) s;
          (out, w) = check_output_or_log sh command (timeout s1) (world s1)
      in (out, emit (CheckOutput command (timeout s1)) (s1\<lparr>world := w\<rparr>)))"

text \<open>\<^verbatim>\<open>_query_state_code\<close>\<close>

definition query_state_code :: "'w shell \<Rightarrow> string \<Rightarrow> 'w switch \<Rightarrow> bool \<times> 'w switch" where
  "query_state_code sh command s =
     (let s1 = emit (Log INFO ''Running state code command: %s'' [ArgStr command]) s;
          (code, w) = call_shell_with_timeout sh command (timeout s1) False (world s1)
      in (code = 0, emit (CallShell command (timeout s1) False) (s1\<lparr>world := w\<rparr>)))"

text \<open>\<^verbatim>\<open>assumed_state\<close>\<close>

definition assumed_state :: "'w switch \<Rightarrow> bool" where
  "assumed_state s = (command_state s = None)"

text \<open>\<^verbatim>\<open>_query_state\<close>; without a state command it falls off the end.\<close>

definition query_state :: "'w shell \<Rightarrow> 'w switch \<Rightarrow> pyval \<times> 'w switch" where
  "query_state sh s =
     (case command_state s of
        Some c \<Rightarrow>
          if c \<noteq> [] then
            (if value_template s \<noteq> None
             then (case query_state_value sh c s of
                     (Some out, s') \<Rightarrow> (PStr out, s') | (None, s') \<Rightarrow> (PNone, s'))
             else (case query_state_code sh c s of (b, s') \<Rightarrow> (PBool b, s')))
          else (PNone, s)
      | None \<Rightarrow> (PNone, s))"

text \<open>
  The decision inside \<^verbatim>\<open>_async_update\<close>:
  \<^verbatim>\<open>self._attr_is_on = None\<close>, then
  \<^verbatim>\<open>if payload or value: self._attr_is_on = (value or payload).lower() == "true"\<close>.
\<close>

fun value_or :: "string option \<Rightarrow> string \<Rightarrow> string" where
  "value_or None payload = payload"
| "value_or (Some v) payload = (if v \<noteq> [] then v else payload)"

definition state_interpret :: "string \<Rightarrow> string option \<Rightarrow> bool option" where
  "state_interpret payload val =
     (if payload \<noteq> [] \<or> truthy val
      then Some (lower (value_or val payload) = ''true'')
      else None)"

text \<open>
  \<^verbatim>\<open>_async_update\<close> after the state query has returned \<open>r\<close>: the payload is
  \<^verbatim>\<open>str(r)\<close> and the template (if any) is rendered on it. If the render raises,
  the exception leaves \<^verbatim>\<open>_async_update\<close> at once: the state is not touched and
  the host is not told. Otherwise the state is decided and the host is told.
\<close>

definition render_value :: "string \<Rightarrow> 'w switch \<Rightarrow> pyerr + string option" where
  "render_value payload s =
     (case value_template s of Some t \<Rightarrow> t payload | None \<Rightarrow> Inr None)"

definition async_update_resume :: "pyval \<Rightarrow> 'w switch \<Rightarrow> 'w switch" where
  "async_update_resume r s =
     (let payload = py_str r;
          s1 = (if value_template s \<noteq> None then emit (Render payload) s else s)
      in case render_value payload s of
           Inl e \<Rightarrow> emit (Raises e) s1
         | Inr val \<Rightarrow>
             (let s2 = s1\<lparr>attr_is_on := state_interpret payload val\<rparr>;
                  s3 = emit (ProcessManualData payload) s2
              in emit (UpdateHaState True) s3))"

text \<open>\<^verbatim>\<open>_async_update\<close>\<close>

definition async_update :: "'w shell \<Rightarrow> 'w switch \<Rightarrow> 'w switch" where
  "async_update sh s =
     (if truthy (command_state s)
      then (case query_state sh s of (r, s') \<Rightarrow> async_update_resume r s')
      else s)"

text \<open>
  \<^verbatim>\<open>_update_entity_state\<close>, run without interruption: create the lock if there
  is none, give up with a warning if it is held, otherwise hold it around
  \<^verbatim>\<open>_async_update\<close>. \<^verbatim>\<open>async with\<close> releases the lock on the way out also when
  \<^verbatim>\<open>_async_update\<close> raised; nothing follows it, so the exception is the last
  thing the call does.
\<close>

definition poll_warning :: "'w switch \<Rightarrow> event" where
  "poll_warning s =
     Log WARNING
       ''Updating Command Line Switch %s took longer than the scheduled update interval %s''
       [ArgStr (name s), ArgInterval (scan_interval s)]"

definition update_entity_state :: "'w shell \<Rightarrow> 'w switch \<Rightarrow> 'w switch" where
  "update_entity_state sh s =
     (let s1 = (if process_updates s = None then s\<lparr>process_updates := Some False\<rparr> else s)
      in if process_updates s1 = Some True
         then emit (poll_warning s1) s1
         else (async_update sh (s1\<lparr>process_updates := Some True\<rparr>))
                \<lparr>process_updates := Some False\<rparr>)"

text \<open>
  The first statement of \<^verbatim>\<open>async_turn_on\<close> / \<^verbatim>\<open>async_turn_off\<close>: the action
  command and, when it succeeded and no state command is set
  (\<^verbatim>\<open>not self._command_state\<close>), the optimistic update with its notification.
\<close>

definition optimistic :: "bool \<Rightarrow> bool \<Rightarrow> 'w switch \<Rightarrow> 'w switch" where
  "optimistic success target s =
     (if success \<and> \<not> truthy (command_state s)
      then emit ScheduleUpdateHaState (s\<lparr>attr_is_on := Some target\<rparr>)
      else s)"

definition turn_action :: "'w shell \<Rightarrow> string \<Rightarrow> bool \<Rightarrow> 'w switch \<Rightarrow> 'w switch" where
  "turn_action sh command target s =
     (case do_switch sh command s of (success, s1) \<Rightarrow> optimistic success target s1)"

text \<open>
  \<^verbatim>\<open>async_turn_on\<close>; the refresh is its last statement, so an exception raised
  there is the last thing the call does.
\<close>

definition async_turn_on :: "'w shell \<Rightarrow> 'w switch \<Rightarrow> 'w switch" where
  "async_turn_on sh s = update_entity_state sh (turn_action sh (command_on s) True s)"

text \<open>\<^verbatim>\<open>async_turn_off\<close>\<close>

definition async_turn_off :: "'w shell \<Rightarrow> 'w switch \<Rightarrow> 'w switch" where
  "async_turn_off sh s = update_entity_state sh (turn_action sh (command_off s) False s)"

subsection \<open>Interleaved execution\<close>

text \<open>
  The coroutines of one switch run on one event loop: a coroutine runs without
  interruption until it awaits a job, and other coroutines of the switch run
  only while it is suspended. The suspension points of the source are the
  executor job in \<^verbatim>\<open>_switch\<close>, the executor job in \<^verbatim>\<open>_async_update\<close> and
  \<^verbatim>\<open>async_update_ha_state\<close> at its end. Testing \<^verbatim>\<open>locked()\<close> and entering
  \<^verbatim>\<open>async with\<close> on a free lock happen without suspension in between.
  A job handed to the executor starts at once: what it logs and the helper it
  invokes are recorded when the coroutine suspends, its result when the
  coroutine is resumed. A frame is a suspended coroutine.
\<close>

datatype frame =
    InSwitch bool
  | InQuery
  | InCommit

text \<open>A frame that is inside the body guarded by the lock.\<close>

fun in_body :: "frame \<Rightarrow> bool" where
  "in_body (InSwitch b) = False"
| "in_body InQuery = True"
| "in_body InCommit = True"

text \<open>
  The executor job \<^verbatim>\<open>_query_state\<close> in two parts: what it does when it starts
  (the log record and the invocation of the helper), and the value it returns
  when the helper has returned.
\<close>

definition query_begin :: "'w switch \<Rightarrow> 'w switch" where
  "query_begin s =
     (case command_state s of
        Some c \<Rightarrow>
          if c \<noteq> [] then
            (if value_template s \<noteq> None
             then emit (CheckOutput c (timeout s))
                    (emit (Log INFO ''Running state value command: %s'' [ArgStr c]) s)
             else emit (CallShell c (timeout s) False)
                    (emit (Log INFO ''Running state code command: %s'' [ArgStr c]) s))
          else s
      | None \<Rightarrow> s)"

definition query_end :: "'w shell \<Rightarrow> 'w switch \<Rightarrow> pyval \<times> 'w switch" where
  "query_end sh s =
     (case command_state s of
        Some c \<Rightarrow>
          if c \<noteq> [] then
            (if value_template s \<noteq> None
             then (case check_output_or_log sh c (timeout s) (world s) of
                     (Some out, w) \<Rightarrow> (PStr out, s\<lparr>world := w\<rparr>)
                   | (None, w) \<Rightarrow> (PNone, s\<lparr>world := w\<rparr>))
             else (case call_shell_with_timeout sh c (timeout s) False (world s) of
                     (code, w) \<Rightarrow> (PBool (code = 0), s\<lparr>world := w\<rparr>)))
          else (PNone, s)
      | None \<Rightarrow> (PNone, s))"

text \<open>
  \<^verbatim>\<open>_update_entity_state\<close> from its start to its first suspension: either the
  coroutine has ended (the attempt was dropped, or there was nothing to
  query), or it is suspended at the state query with the lock held and the
  query job started.
\<close>

definition update_begin :: "'w switch \<Rightarrow> frame option \<times> 'w switch" where
  "update_begin s =
     (let s1 = (if process_updates s = None then s\<lparr>process_updates := Some False\<rparr> else s)
      in if process_updates s1 = Some True
         then (None, emit (poll_warning s1) s1)
         else (let s2 = s1\<lparr>process_updates := Some True\<rparr>
               in if truthy (command_state s2)
                  then (Some InQuery, query_begin s2)
                  else (None, s2\<lparr>process_updates := Some False\<rparr>)))"

datatype label =
    Tick
  | CallTurn bool
  | Resume nat

type_synonym 'w config = "'w switch \<times> frame list"

definition spawn :: "frame option \<Rightarrow> frame list \<Rightarrow> frame list" where
  "spawn f fs = (case f of None \<Rightarrow> fs | Some fr \<Rightarrow> fs @ [fr])"

definition continue :: "nat \<Rightarrow> frame option \<Rightarrow> frame list \<Rightarrow> frame list" where
  "continue i f fs =
     (case f of None \<Rightarrow> take i fs @ drop (Suc i) fs | Some fr \<Rightarrow> fs[i := fr])"

text \<open>
  One step of the event loop: the timer fires (\<open>Tick\<close>), a caller starts
  \<^verbatim>\<open>async_turn_on\<close> or \<^verbatim>\<open>async_turn_off\<close> (\<open>CallTurn\<close>), or the job awaited by
  the \<open>i\<close>-th suspended coroutine completes and that coroutine runs on to its
  next suspension or its end (\<open>Resume i\<close>). A coroutine resumed after the state
  query ends at once, releasing the lock, when the render raises.
\<close>

fun resume :: "'w shell \<Rightarrow> frame \<Rightarrow> 'w switch \<Rightarrow> frame option \<times> 'w switch" where
  "resume sh (InSwitch target) s =
     (case switch_resume sh (if target then command_on s else command_off s) s of
        (success, s1) \<Rightarrow> update_begin (optimistic success target s1))"
| "resume sh InQuery s =
     (case query_end sh s of
        (r, s1) \<Rightarrow>
          (case render_value (py_str r) s1 of
             Inl e \<Rightarrow> (None, (async_update_resume r s1)\<lparr>process_updates := Some False\<rparr>)
           | Inr val \<Rightarrow> (Some InCommit, async_update_resume r s1)))"
| "resume sh InCommit s = (None, s\<lparr>process_updates := Some False\<rparr>)"

fun step :: "'w shell \<Rightarrow> label \<Rightarrow> 'w config \<Rightarrow> 'w config" where
  "step sh Tick (s, fs) = (case update_begin s of (f, s') \<Rightarrow> (s', spawn f fs))"
| "step sh (CallTurn target) (s, fs) =
     (switch_begin (if target then command_on s else command_off s) s,
      fs @ [InSwitch target])"
| "step sh (Resume i) (s, fs) =
     (if i < length fs
      then (case resume sh (fs ! i) s of (f, s') \<Rightarrow> (s', continue i f fs))
      else (s, fs))"

fun exec :: "'w shell \<Rightarrow> label list \<Rightarrow> 'w config \<Rightarrow> 'w config" where
  "exec sh [] c = c"
| "exec sh (l # ls) c = exec sh ls (step sh l c)"

text \<open>The number of executions of the guarded body that are in progress.\<close>

definition bodies :: "frame list \<Rightarrow> nat" where
  "bodies fs = length (filter in_body fs)"

text \<open>
  The lock is held; and the relation between the lock and the executions in
  progress that every step keeps.
\<close>

definition lock_held :: "'w switch \<Rightarrow> bool" where
  "lock_held s = (process_updates s = Some True)"

definition guard_inv :: "'w config \<Rightarrow> bool" where
  "guard_inv c = (bodies (snd c) = (if lock_held (fst c) then 1 else 0))"

subsection \<open>Example devices\<close>

text \<open>
  A shell in which every command exits with the same code and captures the
  same output, and one in which they depend on the command. Four switches: one
  without a state command, one with a state command only, one with a state
  command and a template that renders nothing, and one whose template compares
  a number and raises on a payload that is none (as \<^verbatim>\<open>{{ value | int > 0 }}\<close>
  does on \<^verbatim>\<open>"None"\<close>).
\<close>

definition fixed_shell :: "int \<Rightarrow> string option \<Rightarrow> unit shell" where
  "fixed_shell code out =
     \<lparr> call_shell_with_timeout = (\<lambda>command tmo lg w. (code, w)),
       check_output_or_log = (\<lambda>command tmo w. (out, w)) \<rparr>"

definition script_shell :: "(string \<Rightarrow> int) \<Rightarrow> (string \<Rightarrow> string option) \<Rightarrow> unit shell" where
  "script_shell code out =
     \<lparr> call_shell_with_timeout = (\<lambda>command tmo lg w. (code command, w)),
       check_output_or_log = (\<lambda>command tmo w. (out command, w)) \<rparr>"

definition on_fails_shell :: "unit shell" where
  "on_fails_shell = script_shell (\<lambda>c. if c = ''lamp on'' then 1 else 0) (\<lambda>c. Some ''1'')"

definition assumed_switch :: "unit switch" where
  "assumed_switch = init ''lamp'' ''lamp'' ''lamp on'' ''lamp off'' None None 15 30 ()"

definition code_switch :: "unit switch" where
  "code_switch =
     init ''lamp'' ''lamp'' ''lamp on'' ''lamp off'' (Some ''lamp state'') None 15 30 ()"

definition value_switch :: "unit switch" where
  "value_switch =
     init ''lamp'' ''lamp'' ''lamp on'' ''lamp off'' (Some ''lamp state'')
       (Some (\<lambda>p. Inr None)) 15 30 ()"

definition int_template :: template where
  "int_template p =
     (if p = ''None'' then Inl (PyError ''ValueError'')
      else Inr (Some (if p = ''0'' then ''False'' else ''True'')))"

definition raising_switch :: "unit switch" where
  "raising_switch =
     init ''lamp'' ''lamp'' ''lamp on'' ''lamp off'' (Some ''lamp state'')
       (Some int_template) 15 30 ()"

section \<open>Properties\<close>

lemmas query_defs = query_state_def query_state_value_def query_state_code_def

lemmas update_defs = async_update_def async_update_resume_def render_value_def
  update_entity_state_def

lemmas turn_defs = turn_action_def do_switch_def switch_begin_def switch_resume_def optimistic_def

lemmas example_defs = fixed_shell_def script_shell_def on_fails_shell_def assumed_switch_def
  code_switch_def
  value_switch_def raising_switch_def int_template_def init_def

lemma lower_True [simp]: "lower ''True'' = ''true''"
  by (simp add: lower_def char_lower_def)

lemma lower_False [simp]: "lower ''False'' \<noteq> ''true''"
  by (simp add: lower_def char_lower_def)

lemma lower_None [simp]: "lower ''None'' \<noteq> ''true''"
  by (simp add: lower_def char_lower_def)

lemma lower_true [simp]: "lower ''true'' = ''true''"
  by (simp add: lower_def char_lower_def)

lemma py_str_PBool_nonempty [simp]: "py_str (PBool b) \<noteq> []"
  by (cases b) simp_all

lemma lower_py_str_PBool [simp]: "(lower (py_str (PBool b)) = ''true'') = b"
  by (cases b) simp_all

text \<open>
  C10: a freshly constructed switch reports the definite state Off
  (\<^verbatim>\<open>_attr_is_on = False\<close>), not Unknown, and nothing has been run or logged yet.
\<close>

theorem init_is_off:
  "attr_is_on (init nm object_id cmd_on cmd_off cmd_state tmpl tmo interval w) = Some False
   \<and> attr_is_on (init nm object_id cmd_on cmd_off cmd_state tmpl tmo interval w) \<noteq> None
   \<and> trace (init nm object_id cmd_on cmd_off cmd_state tmpl tmo interval w) = []"
  by (simp add: init_def)

subsection \<open>Interpreting the state query\<close>






subsection \<open>Refreshing the state\<close>

text \<open>
  C9: with a state command and no value template, a refresh sets the state to
  On exactly when the state command exits with 0 and to Off otherwise. The
  result is never Unknown, and it does not depend on what
  \<^verbatim>\<open>check_output_or_log\<close> would capture. The same holds for the guarded refresh
  when the lock is not held.
\<close>

theorem code_mode_refresh:
  assumes "command_state s = Some c" "c \<noteq> []" "value_template s = None"
  shows "attr_is_on (async_update sh s)
           = Some (fst (call_shell_with_timeout sh c (timeout s) False (world s)) = 0)
         \<and> attr_is_on (async_update sh s) \<noteq> None
         \<and> async_update (sh\<lparr>check_output_or_log := f\<rparr>) s = async_update sh s
         \<and> (process_updates s \<noteq> Some True \<longrightarrow>
              attr_is_on (update_entity_state sh s)
                = Some (fst (call_shell_with_timeout sh c (timeout s) False (world s)) = 0))"
  using assms
  by (auto simp: update_defs query_defs emit_def state_interpret_def Let_def split: prod.splits)

theorem code_mode_refresh_witness:
  "attr_is_on (async_update (fixed_shell 0 None) code_switch) = Some True
   \<and> attr_is_on (update_entity_state (fixed_shell 7 (Some ''true'')) code_switch) = Some False"
  using code_mode_refresh [of code_switch "''lamp state''" "fixed_shell 0 None"]
        code_mode_refresh [of code_switch "''lamp state''" "fixed_shell 7 (Some ''true'')"]
  by (simp add: example_defs)

text \<open>
  C4, as the code has it: without a state command a refresh (guarded or not)
  leaves the cached state as it was; and when the on command exits with 0,
  \<^verbatim>\<open>async_turn_on\<close> followed by a refresh leaves the state On.
\<close>

theorem assumed_refresh:
  assumes "assumed_state s"
  shows "attr_is_on (update_entity_state sh s) = attr_is_on s
         \<and> attr_is_on (async_update sh s) = attr_is_on s
         \<and> (fst (call_shell_with_timeout sh (command_on s) (timeout s) True (world s)) = 0 \<longrightarrow>
              attr_is_on (update_entity_state sh' (async_turn_on sh s)) = Some True)"
  using assms
  by (auto simp: update_defs turn_defs async_turn_on_def assumed_state_def emit_def Let_def
           split: prod.splits)

theorem assumed_refresh_witness:
  "assumed_state assumed_switch
   \<and> attr_is_on (update_entity_state (fixed_shell 1 None)
         (async_turn_on (fixed_shell 0 None) assumed_switch)) = Some True"
  using assumed_refresh [of assumed_switch "fixed_shell 0 None" "fixed_shell 1 None"]
  by (simp add: example_defs assumed_state_def)

text \<open>
  C4 as stated fails: \<open>assumed_switch\<close> has no state command and starts Off; its
  on command exits with 1, and after \<^verbatim>\<open>async_turn_on\<close> and a refresh the state
  is still Off.
\<close>

theorem failed_turn_on_stays_off:
  "assumed_state assumed_switch
   \<and> call_shell_with_timeout (fixed_shell 1 None) (command_on assumed_switch)
         (timeout assumed_switch) True () = (1, ())
   \<and> attr_is_on (update_entity_state (fixed_shell 1 None)
         (async_turn_on (fixed_shell 1 None) assumed_switch)) = Some False"
  by (simp add: example_defs assumed_state_def update_defs turn_defs async_turn_on_def
        emit_def Let_def)

subsection \<open>Auxiliary facts\<close>

lemma emit_fields [simp]:
  "name (emit e s) = name s"
  "attr_is_on (emit e s) = attr_is_on s"
  "command_on (emit e s) = command_on s"
  "command_off (emit e s) = command_off s"
  "command_state (emit e s) = command_state s"
  "value_template (emit e s) = value_template s"
  "timeout (emit e s) = timeout s"
  "scan_interval (emit e s) = scan_interval s"
  "process_updates (emit e s) = process_updates s"
  "world (emit e s) = world s"
  "trace (emit e s) = trace s @ [e]"
  by (simp_all add: emit_def)

lemma exceptions_append [simp]: "exceptions (xs @ ys) = exceptions xs @ exceptions ys"
  by (induction xs rule: exceptions.induct) simp_all

lemma surfaced_update [simp]:
  "surfaced (s\<lparr>process_updates := b\<rparr>) = surfaced s"
  "surfaced (s\<lparr>attr_is_on := a\<rparr>) = surfaced s"
  "surfaced (s\<lparr>world := w\<rparr>) = surfaced s"
  by (simp_all add: surfaced_def)

lemma surfaced_emit [simp]: "surfaced (emit e s) = surfaced s @ exceptions [e]"
  by (simp add: surfaced_def)

lemma render_value_emit [simp]: "render_value p (emit e s) = render_value p s"
  by (simp add: render_value_def)

lemma render_value_update [simp]:
  "render_value p (s\<lparr>process_updates := b\<rparr>) = render_value p s"
  "render_value p (s\<lparr>world := w\<rparr>) = render_value p s"
  by (simp_all add: render_value_def)

text \<open>The state query, by mode.\<close>

lemma query_state_value_mode:
  assumes "command_state s = Some c" "c \<noteq> []" "value_template s = Some t"
  shows "query_state sh s =
           (case fst (check_output_or_log sh c (timeout s) (world s)) of
              None \<Rightarrow> PNone | Some out \<Rightarrow> PStr out,
            emit (CheckOutput c (timeout s))
              ((emit (Log INFO ''Running state value command: %s'' [ArgStr c]) s)
                 \<lparr>world := snd (check_output_or_log sh c (timeout s) (world s))\<rparr>))"
  using assms
  by (auto simp: query_state_def query_state_value_def Let_def split: prod.splits option.splits)

lemma query_state_code_mode:
  assumes "command_state s = Some c" "c \<noteq> []" "value_template s = None"
  shows "query_state sh s =
           (PBool (fst (call_shell_with_timeout sh c (timeout s) False (world s)) = 0),
            emit (CallShell c (timeout s) False)
              ((emit (Log INFO ''Running state code command: %s'' [ArgStr c]) s)
                 \<lparr>world := snd (call_shell_with_timeout sh c (timeout s) False (world s))\<rparr>))"
  using assms
  by (auto simp: query_state_def query_state_code_def Let_def split: prod.splits)

text \<open>\<^verbatim>\<open>_async_update\<close> from the render on, by what the render does.\<close>

lemma async_update_resume_plain:
  assumes "value_template s = None"
  shows "async_update_resume r s =
           emit (UpdateHaState True)
             (emit (ProcessManualData (py_str r))
                (s\<lparr>attr_is_on := state_interpret (py_str r) None\<rparr>))"
  using assms by (simp add: async_update_resume_def render_value_def Let_def)

lemma async_update_resume_rendered:
  assumes "value_template s = Some t" "t (py_str r) = Inr v"
  shows "async_update_resume r s =
           emit (UpdateHaState True)
             (emit (ProcessManualData (py_str r))
                ((emit (Render (py_str r)) s)\<lparr>attr_is_on := state_interpret (py_str r) v\<rparr>))"
  using assms by (simp add: async_update_resume_def render_value_def Let_def)

lemma async_update_resume_raised:
  assumes "value_template s = Some t" "t (py_str r) = Inl e"
  shows "async_update_resume r s = emit (Raises e) (emit (Render (py_str r)) s)"
  using assms by (simp add: async_update_resume_def render_value_def Let_def)

text \<open>\<^verbatim>\<open>_async_update\<close> with a state command, by mode.\<close>

lemma async_update_code_mode:
  assumes "command_state s = Some c" "c \<noteq> []" "value_template s = None"
    and "p = py_str (PBool (fst (call_shell_with_timeout sh c (timeout s) False (world s)) = 0))"
  shows "trace (async_update sh s)
           = trace s @ [Log INFO ''Running state code command: %s'' [ArgStr c],
                        CallShell c (timeout s) False,
                        ProcessManualData p, UpdateHaState True]"
    and "attr_is_on (async_update sh s) = state_interpret p None"
    and "process_updates (async_update sh s) = process_updates s"
    and "surfaced (async_update sh s) = surfaced s"
  using assms
  by (simp_all add: async_update_def query_state_code_mode async_update_resume_plain)

lemma async_update_value_mode:
  assumes "command_state s = Some c" "c \<noteq> []" "value_template s = Some t"
    and "p = py_str (case fst (check_output_or_log sh c (timeout s) (world s)) of
                       None \<Rightarrow> PNone | Some out \<Rightarrow> PStr out)"
    and "t p = Inr v"
  shows "trace (async_update sh s)
           = trace s @ [Log INFO ''Running state value command: %s'' [ArgStr c],
                        CheckOutput c (timeout s),
                        Render p, ProcessManualData p, UpdateHaState True]"
    and "attr_is_on (async_update sh s) = state_interpret p v"
    and "process_updates (async_update sh s) = process_updates s"
    and "surfaced (async_update sh s) = surfaced s"
  using assms
  by (simp_all add: async_update_def query_state_value_mode
        async_update_resume_rendered [where t = t and v = v])

lemma async_update_raise_mode:
  assumes "command_state s = Some c" "c \<noteq> []" "value_template s = Some t"
    and "p = py_str (case fst (check_output_or_log sh c (timeout s) (world s)) of
                       None \<Rightarrow> PNone | Some out \<Rightarrow> PStr out)"
    and "t p = Inl e"
  shows "trace (async_update sh s)
           = trace s @ [Log INFO ''Running state value command: %s'' [ArgStr c],
                        CheckOutput c (timeout s),
                        Render p, Raises e]"
    and "attr_is_on (async_update sh s) = attr_is_on s"
    and "process_updates (async_update sh s) = process_updates s"
    and "surfaced (async_update sh s) = surfaced s @ [e]"
  using assms
  by (simp_all add: async_update_def query_state_value_mode
        async_update_resume_raised [where t = t and e = e])

text \<open>The guarded refresh, by the state of the lock and by mode.\<close>

lemma lock_held_emit [simp]: "lock_held (emit e s) = lock_held s"
  by (simp add: lock_held_def)

lemma lock_held_update [simp]: "lock_held (s\<lparr>process_updates := b\<rparr>) = (b = Some True)"
  by (simp add: lock_held_def)

lemma lock_held_world [simp]: "lock_held (s\<lparr>world := w\<rparr>) = lock_held s"
  by (simp add: lock_held_def)

lemma update_entity_state_held:
  assumes "lock_held s"
  shows "update_entity_state sh s = emit (poll_warning s) s"
  using assms by (simp add: update_entity_state_def lock_held_def)

lemma update_entity_state_free:
  assumes "\<not> lock_held s"
  shows "update_entity_state sh s
           = (async_update sh (s\<lparr>process_updates := Some True\<rparr>))\<lparr>process_updates := Some False\<rparr>"
  using assms by (simp add: update_entity_state_def lock_held_def Let_def)

lemma update_entity_state_no_command:
  assumes "\<not> lock_held s" "\<not> truthy (command_state s)"
  shows "update_entity_state sh s = s\<lparr>process_updates := Some False\<rparr>"
  using assms by (simp add: update_entity_state_free async_update_def)

lemma update_entity_state_code_mode:
  assumes "\<not> lock_held s" "command_state s = Some c" "c \<noteq> []" "value_template s = None"
    and "p = py_str (PBool (fst (call_shell_with_timeout sh c (timeout s) False (world s)) = 0))"
  shows "trace (update_entity_state sh s)
           = trace s @ [Log INFO ''Running state code command: %s'' [ArgStr c],
                        CallShell c (timeout s) False,
                        ProcessManualData p, UpdateHaState True]"
    and "attr_is_on (update_entity_state sh s) = state_interpret p None"
    and "process_updates (update_entity_state sh s) = Some False"
    and "surfaced (update_entity_state sh s) = surfaced s"
  using assms async_update_code_mode [where s = "s\<lparr>process_updates := Some True\<rparr>" and c = c and sh = sh and p = p]
  by (simp_all add: update_entity_state_free surfaced_def)

lemma update_entity_state_value_mode:
  assumes "\<not> lock_held s" "command_state s = Some c" "c \<noteq> []" "value_template s = Some t"
    and "p = py_str (case fst (check_output_or_log sh c (timeout s) (world s)) of
                       None \<Rightarrow> PNone | Some out \<Rightarrow> PStr out)"
    and "t p = Inr v"
  shows "trace (update_entity_state sh s)
           = trace s @ [Log INFO ''Running state value command: %s'' [ArgStr c],
                        CheckOutput c (timeout s),
                        Render p, ProcessManualData p, UpdateHaState True]"
    and "attr_is_on (update_entity_state sh s) = state_interpret p v"
    and "process_updates (update_entity_state sh s) = Some False"
    and "surfaced (update_entity_state sh s) = surfaced s"
  using assms async_update_value_mode [where s = "s\<lparr>process_updates := Some True\<rparr>" and c = c and t = t and sh = sh and p = p and v = v]
  by (simp_all add: update_entity_state_free surfaced_def)

lemma update_entity_state_raise_mode:
  assumes "\<not> lock_held s" "command_state s = Some c" "c \<noteq> []" "value_template s = Some t"
    and "p = py_str (case fst (check_output_or_log sh c (timeout s) (world s)) of
                       None \<Rightarrow> PNone | Some out \<Rightarrow> PStr out)"
    and "t p = Inl e"
  shows "trace (update_entity_state sh s)
           = trace s @ [Log INFO ''Running state value command: %s'' [ArgStr c],
                        CheckOutput c (timeout s),
                        Render p, Raises e]"
    and "attr_is_on (update_entity_state sh s) = attr_is_on s"
    and "process_updates (update_entity_state sh s) = Some False"
    and "surfaced (update_entity_state sh s) = surfaced s @ [e]"
  using assms async_update_raise_mode [where s = "s\<lparr>process_updates := Some True\<rparr>" and c = c and t = t and sh = sh and p = p and e = e]
  by (simp_all add: update_entity_state_free surfaced_def)

subsection \<open>A failed state query\<close>

lemma state_interpret_None_iff:
  "state_interpret p v = None \<longleftrightarrow> p = [] \<and> \<not> truthy v"
  by (simp add: state_interpret_def)

lemma py_str_output_empty_iff:
  "py_str (case out of None \<Rightarrow> PNone | Some x \<Rightarrow> PStr x) = [] \<longleftrightarrow> out = Some []"
  by (cases out) simp_all

text \<open>
  C2, as the code has it: a refresh whose state command fails never sets
  Unknown. Without a template a non-zero exit gives Off and nothing is raised.
  With a template, a query that captured nothing hands the text \<^verbatim>\<open>"None"\<close> to
  the template; when the render returns, the state is On or Off by the rendered
  value (or by \<^verbatim>\<open>"None"\<close>, which is Off) and nothing is raised; when the render
  raises, the exception reaches the caller, the state is left as it was and
  the lock is released. A refresh sets Unknown exactly when the command
  succeeded with empty output and the template rendered nothing.
\<close>

theorem failed_query_state:
  assumes "command_state s = Some c" "c \<noteq> []"
  shows "(value_template s = None \<and>
            fst (call_shell_with_timeout sh c (timeout s) False (world s)) \<noteq> 0
            \<longrightarrow> attr_is_on (async_update sh s) = Some False
                \<and> surfaced (async_update sh s) = surfaced s
                \<and> (\<not> lock_held s \<longrightarrow>
                      attr_is_on (update_entity_state sh s) = Some False
                      \<and> surfaced (update_entity_state sh s) = surfaced s))
         \<and> (\<forall>t v. value_template s = Some t \<and>
                fst (check_output_or_log sh c (timeout s) (world s)) = None \<and>
                t ''None'' = Inr v
            \<longrightarrow> attr_is_on (async_update sh s)
                  = Some (lower (value_or v ''None'') = ''true'')
                \<and> surfaced (async_update sh s) = surfaced s)
         \<and> (\<forall>t e. value_template s = Some t \<and>
                fst (check_output_or_log sh c (timeout s) (world s)) = None \<and>
                t ''None'' = Inl e
            \<longrightarrow> attr_is_on (async_update sh s) = attr_is_on s
                \<and> surfaced (async_update sh s) = surfaced s @ [e]
                \<and> (\<not> lock_held s \<longrightarrow>
                      attr_is_on (update_entity_state sh s) = attr_is_on s
                      \<and> process_updates (update_entity_state sh s) = Some False
                      \<and> surfaced (update_entity_state sh s) = surfaced s @ [e]))
         \<and> ((\<exists>t v. value_template s = Some t
                 \<and> fst (check_output_or_log sh c (timeout s) (world s)) = Some []
                 \<and> t [] = Inr v \<and> \<not> truthy v)
            \<longrightarrow> attr_is_on (async_update sh s) = None)
         \<and> (attr_is_on (async_update sh s) = None \<and> attr_is_on s \<noteq> None
            \<longrightarrow> (\<exists>t v. value_template s = Some t
                 \<and> fst (check_output_or_log sh c (timeout s) (world s)) = Some []
                 \<and> t [] = Inr v \<and> \<not> truthy v))"
proof (cases "value_template s")
  case None
  let ?p = "py_str (PBool (fst (call_shell_with_timeout sh c (timeout s) False (world s)) = 0))"
  have a: "attr_is_on (async_update sh s) = state_interpret ?p None"
    and x: "surfaced (async_update sh s) = surfaced s"
    using assms None by (simp_all add: async_update_code_mode)
  have u: "attr_is_on (update_entity_state sh s) = state_interpret ?p None"
    and y: "surfaced (update_entity_state sh s) = surfaced s"
    if "\<not> lock_held s"
    using that assms None by (simp_all add: update_entity_state_code_mode)
  show ?thesis
    using None a x u y by (auto simp: state_interpret_def)
next
  case (Some t)
  let ?out = "fst (check_output_or_log sh c (timeout s) (world s))"
  let ?p = "py_str (case ?out of None \<Rightarrow> PNone | Some x \<Rightarrow> PStr x)"
  show ?thesis
  proof (cases "t ?p")
    case (Inl e)
    have a: "attr_is_on (async_update sh s) = attr_is_on s"
      and x: "surfaced (async_update sh s) = surfaced s @ [e]"
      using assms Some Inl
      by (simp_all add: async_update_raise_mode [where t = t and e = e])
    have u: "attr_is_on (update_entity_state sh s) = attr_is_on s"
      and l: "process_updates (update_entity_state sh s) = Some False"
      and y: "surfaced (update_entity_state sh s) = surfaced s @ [e]"
      if "\<not> lock_held s"
      using that assms Some Inl
      by (simp_all add: update_entity_state_raise_mode [where t = t and e = e])
    show ?thesis
      using Some Inl a x u l y by (auto split: option.splits)
  next
    case (Inr v)
    have a: "attr_is_on (async_update sh s) = state_interpret ?p v"
      and x: "surfaced (async_update sh s) = surfaced s"
      using assms Some Inr
      by (simp_all add: async_update_value_mode [where t = t and v = v])
    have n: "attr_is_on (async_update sh s) = None \<longleftrightarrow> ?out = Some [] \<and> \<not> truthy v"
      by (simp add: a state_interpret_None_iff py_str_output_empty_iff)
    have o: "?out = None \<Longrightarrow>
             attr_is_on (async_update sh s) = Some (lower (value_or v ''None'') = ''true'')"
      using a by (simp add: state_interpret_def)
    show ?thesis
      using Some Inr x n o by (auto split: option.splits)
  qed
qed

theorem failed_query_state_witness:
  "attr_is_on (async_update (fixed_shell 1 None) code_switch) = Some False
   \<and> surfaced (async_update (fixed_shell 1 None) code_switch) = []
   \<and> attr_is_on (async_update (fixed_shell 1 None) value_switch) = Some False
   \<and> surfaced (update_entity_state (fixed_shell 1 None) raising_switch) = [PyError ''ValueError'']
   \<and> process_updates (update_entity_state (fixed_shell 1 None) raising_switch) = Some False
   \<and> attr_is_on (async_update (fixed_shell 0 (Some [])) value_switch) = None"
  using failed_query_state [of code_switch "''lamp state''" "fixed_shell 1 None"]
        failed_query_state [of value_switch "''lamp state''" "fixed_shell 1 None"]
        failed_query_state [of raising_switch "''lamp state''" "fixed_shell 1 None"]
        failed_query_state [of value_switch "''lamp state''" "fixed_shell 0 (Some [])"]
  by (simp add: example_defs lock_held_def surfaced_def)

text \<open>
  C2 as stated fails: the state command of \<open>code_switch\<close> exits with 1, and the
  guarded refresh ends with the state Off, not Unknown.
\<close>

theorem failed_state_command_is_off:
  "call_shell_with_timeout (fixed_shell 1 None) ''lamp state'' 15 False () = (1, ())
   \<and> attr_is_on (update_entity_state (fixed_shell 1 None) code_switch) = Some False"
  by (simp add: example_defs update_defs query_defs emit_def state_interpret_def Let_def)

subsection \<open>Actions\<close>

lemma switch_begin_fields [simp]:
  "name (switch_begin command s) = name s"
  "attr_is_on (switch_begin command s) = attr_is_on s"
  "command_on (switch_begin command s) = command_on s"
  "command_off (switch_begin command s) = command_off s"
  "command_state (switch_begin command s) = command_state s"
  "value_template (switch_begin command s) = value_template s"
  "timeout (switch_begin command s) = timeout s"
  "scan_interval (switch_begin command s) = scan_interval s"
  "process_updates (switch_begin command s) = process_updates s"
  "world (switch_begin command s) = world s"
  "trace (switch_begin command s)
     = trace s @ [Log INFO ''Running command: %s'' [ArgStr command],
                  CallShell command (timeout s) True]"
  by (simp_all add: switch_begin_def Let_def)

lemma switch_resume_failed:
  assumes "fst (call_shell_with_timeout sh command (timeout s) True (world s)) \<noteq> 0"
  shows "switch_resume sh command s =
           (False, emit (Log ERROR ''Command failed: %s'' [ArgStr command])
                     (s\<lparr>world := snd (call_shell_with_timeout sh command (timeout s) True (world s))\<rparr>))"
  using assms by (auto simp: switch_resume_def Let_def split: prod.splits)

lemma switch_resume_ok:
  assumes "fst (call_shell_with_timeout sh command (timeout s) True (world s)) = 0"
  shows "switch_resume sh command s =
           (True, s\<lparr>world := snd (call_shell_with_timeout sh command (timeout s) True (world s))\<rparr>)"
  using assms by (auto simp: switch_resume_def Let_def split: prod.splits)

lemma turn_action_failed:
  assumes "fst (call_shell_with_timeout sh command (timeout s) True (world s)) \<noteq> 0"
  shows "turn_action sh command target s =
           emit (Log ERROR ''Command failed: %s'' [ArgStr command])
             ((switch_begin command s)
                \<lparr>world := snd (call_shell_with_timeout sh command (timeout s) True (world s))\<rparr>)"
  using assms
  by (simp add: turn_action_def do_switch_def switch_resume_failed optimistic_def)

lemma turn_action_ok:
  assumes "fst (call_shell_with_timeout sh command (timeout s) True (world s)) = 0"
  shows "turn_action sh command target s =
           optimistic True target
             ((switch_begin command s)
                \<lparr>world := snd (call_shell_with_timeout sh command (timeout s) True (world s))\<rparr>)"
  using assms
  by (simp add: turn_action_def do_switch_def switch_resume_ok)

lemma turn_action_fields [simp]:
  "name (turn_action sh command target s) = name s"
  "command_state (turn_action sh command target s) = command_state s"
  "value_template (turn_action sh command target s) = value_template s"
  "timeout (turn_action sh command target s) = timeout s"
  "scan_interval (turn_action sh command target s) = scan_interval s"
  "process_updates (turn_action sh command target s) = process_updates s"
  "world (turn_action sh command target s)
     = snd (call_shell_with_timeout sh command (timeout s) True (world s))"
  by (cases "fst (call_shell_with_timeout sh command (timeout s) True (world s)) = 0";
      simp add: turn_action_ok turn_action_failed optimistic_def)+

lemma turn_action_trace:
  "trace (turn_action sh command target s)
     = trace s @ [Log INFO ''Running command: %s'' [ArgStr command],
                  CallShell command (timeout s) True]
         @ (if fst (call_shell_with_timeout sh command (timeout s) True (world s)) \<noteq> 0
            then [Log ERROR ''Command failed: %s'' [ArgStr command]]
            else if truthy (command_state s) then [] else [ScheduleUpdateHaState])"
  by (cases "fst (call_shell_with_timeout sh command (timeout s) True (world s)) = 0")
     (simp_all add: turn_action_ok turn_action_failed optimistic_def)

lemma turn_action_attr:
  "attr_is_on (turn_action sh command target s)
     = (if fst (call_shell_with_timeout sh command (timeout s) True (world s)) = 0
          \<and> \<not> truthy (command_state s)
        then Some target else attr_is_on s)"
  by (cases "fst (call_shell_with_timeout sh command (timeout s) True (world s)) = 0")
     (simp_all add: turn_action_ok turn_action_failed optimistic_def)

lemma turn_action_surfaced [simp]:
  "surfaced (turn_action sh command target s) = surfaced s"
  by (simp add: surfaced_def turn_action_trace)

lemma turn_action_lock [simp]: "lock_held (turn_action sh command target s) = lock_held s"
  by (simp add: lock_held_def)

lemma poll_warning_turn_action [simp]:
  "poll_warning (turn_action sh command target s) = poll_warning s"
  by (simp add: poll_warning_def)

text \<open>
  What the guarded refresh does on the state an action has left, whatever the
  exit code of the action was.
\<close>

lemma refresh_after_action:
  assumes "a = turn_action sh command target s"
  shows "(lock_held s \<longrightarrow> update_entity_state sh a = emit (poll_warning s) a)
         \<and> (\<not> lock_held s \<and> \<not> truthy (command_state s)
              \<longrightarrow> update_entity_state sh a = a\<lparr>process_updates := Some False\<rparr>)
         \<and> (\<forall>c p. \<not> lock_held s \<and> command_state s = Some c \<and> c \<noteq> []
                \<and> value_template s = None
                \<and> p = py_str (PBool
                        (fst (call_shell_with_timeout sh c (timeout s) False (world a)) = 0))
              \<longrightarrow> trace (update_entity_state sh a)
                    = trace a @ [Log INFO ''Running state code command: %s'' [ArgStr c],
                                 CallShell c (timeout s) False,
                                 ProcessManualData p, UpdateHaState True]
                  \<and> attr_is_on (update_entity_state sh a) = state_interpret p None
                  \<and> process_updates (update_entity_state sh a) = Some False
                  \<and> surfaced (update_entity_state sh a) = surfaced s)
         \<and> (\<forall>c t p v. \<not> lock_held s \<and> command_state s = Some c \<and> c \<noteq> []
                \<and> value_template s = Some t
                \<and> p = py_str (case fst (check_output_or_log sh c (timeout s) (world a)) of
                                 None \<Rightarrow> PNone | Some out \<Rightarrow> PStr out)
                \<and> t p = Inr v
              \<longrightarrow> trace (update_entity_state sh a)
                    = trace a @ [Log INFO ''Running state value command: %s'' [ArgStr c],
                                 CheckOutput c (timeout s),
                                 Render p, ProcessManualData p, UpdateHaState True]
                  \<and> attr_is_on (update_entity_state sh a) = state_interpret p v
                  \<and> process_updates (update_entity_state sh a) = Some False
                  \<and> surfaced (update_entity_state sh a) = surfaced s)
         \<and> (\<forall>c t p e. \<not> lock_held s \<and> command_state s = Some c \<and> c \<noteq> []
                \<and> value_template s = Some t
                \<and> p = py_str (case fst (check_output_or_log sh c (timeout s) (world a)) of
                                 None \<Rightarrow> PNone | Some out \<Rightarrow> PStr out)
                \<and> t p = Inl e
              \<longrightarrow> trace (update_entity_state sh a)
                    = trace a @ [Log INFO ''Running state value command: %s'' [ArgStr c],
                                 CheckOutput c (timeout s),
                                 Render p, Raises e]
                  \<and> attr_is_on (update_entity_state sh a) = attr_is_on a
                  \<and> process_updates (update_entity_state sh a) = Some False
                  \<and> surfaced (update_entity_state sh a) = surfaced s @ [e])"
proof -
  have held: "update_entity_state sh a = emit (poll_warning s) a" if "lock_held s"
    using that update_entity_state_held [of a sh] by (simp add: assms)
  have none: "update_entity_state sh a = a\<lparr>process_updates := Some False\<rparr>"
    if "\<not> lock_held s" "\<not> truthy (command_state s)"
    using that update_entity_state_no_command [of a sh] by (simp add: assms)
  have code: "trace (update_entity_state sh a)
                = trace a @ [Log INFO ''Running state code command: %s'' [ArgStr c],
                             CallShell c (timeout s) False,
                             ProcessManualData p, UpdateHaState True]
              \<and> attr_is_on (update_entity_state sh a) = state_interpret p None
              \<and> process_updates (update_entity_state sh a) = Some False
              \<and> surfaced (update_entity_state sh a) = surfaced s"
    if "\<not> lock_held s" "command_state s = Some c" "c \<noteq> []" "value_template s = None"
      "p = py_str (PBool (fst (call_shell_with_timeout sh c (timeout s) False (world a)) = 0))"
    for c p
    using that update_entity_state_code_mode [where s = a and sh = sh and c = c and p = p]
    by (simp add: assms)
  have val: "trace (update_entity_state sh a)
                = trace a @ [Log INFO ''Running state value command: %s'' [ArgStr c],
                             CheckOutput c (timeout s),
                             Render p, ProcessManualData p, UpdateHaState True]
              \<and> attr_is_on (update_entity_state sh a) = state_interpret p v
              \<and> process_updates (update_entity_state sh a) = Some False
              \<and> surfaced (update_entity_state sh a) = surfaced s"
    if "\<not> lock_held s" "command_state s = Some c" "c \<noteq> []" "value_template s = Some t"
      "p = py_str (case fst (check_output_or_log sh c (timeout s) (world a)) of
                     None \<Rightarrow> PNone | Some out \<Rightarrow> PStr out)"
      "t p = Inr v"
    for c t p v
    using that
      update_entity_state_value_mode [where s = a and sh = sh and c = c and p = p
        and t = t and v = v]
    by (simp add: assms)
  have rais: "trace (update_entity_state sh a)
                = trace a @ [Log INFO ''Running state value command: %s'' [ArgStr c],
                             CheckOutput c (timeout s),
                             Render p, Raises e]
              \<and> attr_is_on (update_entity_state sh a) = attr_is_on a
              \<and> process_updates (update_entity_state sh a) = Some False
              \<and> surfaced (update_entity_state sh a) = surfaced s @ [e]"
    if "\<not> lock_held s" "command_state s = Some c" "c \<noteq> []" "value_template s = Some t"
      "p = py_str (case fst (check_output_or_log sh c (timeout s) (world a)) of
                     None \<Rightarrow> PNone | Some out \<Rightarrow> PStr out)"
      "t p = Inl e"
    for c t p e
    using that
      update_entity_state_raise_mode [where s = a and sh = sh and c = c and p = p
        and t = t and e = e]
    by (simp add: assms)
  show ?thesis
    using held none code val rais by blast
qed

text \<open>
  C5, as the code has it: when the action command exits with a non-zero code
  (a timeout is reported as one), the action step leaves the cached state and
  the lock as they were, logs the failure at error level and raises nothing.
  The guarded refresh then runs on that state: it is dropped with one warning
  when the lock is held, does nothing when there is no state command, and
  otherwise runs the state query and sets the state from it. The call
  completes normally in all these cases but one: when the render of the value
  template raises, the exception reaches the caller of \<^verbatim>\<open>async_turn_on\<close> /
  \<^verbatim>\<open>async_turn_off\<close>.
\<close>

theorem failed_action:
  assumes "fst (call_shell_with_timeout sh command (timeout s) True (world s)) \<noteq> 0"
    and "a = turn_action sh command target s"
  shows "attr_is_on a = attr_is_on s
         \<and> process_updates a = process_updates s
         \<and> trace a = trace s @ [Log INFO ''Running command: %s'' [ArgStr command],
                                 CallShell command (timeout s) True,
                                 Log ERROR ''Command failed: %s'' [ArgStr command]]
         \<and> surfaced a = surfaced s
         \<and> (command = command_on s \<and> target
              \<longrightarrow> async_turn_on sh s = update_entity_state sh a)
         \<and> (command = command_off s \<and> \<not> target
              \<longrightarrow> async_turn_off sh s = update_entity_state sh a)
         \<and> (lock_held s \<longrightarrow> update_entity_state sh a = emit (poll_warning s) a)
         \<and> (\<not> lock_held s \<and> \<not> truthy (command_state s)
              \<longrightarrow> update_entity_state sh a = a\<lparr>process_updates := Some False\<rparr>)
         \<and> (\<forall>c p. \<not> lock_held s \<and> command_state s = Some c \<and> c \<noteq> []
                \<and> value_template s = None
                \<and> p = py_str (PBool
                        (fst (call_shell_with_timeout sh c (timeout s) False (world a)) = 0))
              \<longrightarrow> trace (update_entity_state sh a)
                    = trace s @ [Log INFO ''Running command: %s'' [ArgStr command],
                                 CallShell command (timeout s) True,
                                 Log ERROR ''Command failed: %s'' [ArgStr command],
                                 Log INFO ''Running state code command: %s'' [ArgStr c],
                                 CallShell c (timeout s) False,
                                 ProcessManualData p, UpdateHaState True]
                  \<and> attr_is_on (update_entity_state sh a) = state_interpret p None
                  \<and> surfaced (update_entity_state sh a) = surfaced s)
         \<and> (\<forall>c t p v. \<not> lock_held s \<and> command_state s = Some c \<and> c \<noteq> []
                \<and> value_template s = Some t
                \<and> p = py_str (case fst (check_output_or_log sh c (timeout s) (world a)) of
                                 None \<Rightarrow> PNone | Some out \<Rightarrow> PStr out)
                \<and> t p = Inr v
              \<longrightarrow> trace (update_entity_state sh a)
                    = trace s @ [Log INFO ''Running command: %s'' [ArgStr command],
                                 CallShell command (timeout s) True,
                                 Log ERROR ''Command failed: %s'' [ArgStr command],
                                 Log INFO ''Running state value command: %s'' [ArgStr c],
                                 CheckOutput c (timeout s),
                                 Render p, ProcessManualData p, UpdateHaState True]
                  \<and> attr_is_on (update_entity_state sh a) = state_interpret p v
                  \<and> surfaced (update_entity_state sh a) = surfaced s)
         \<and> (\<forall>c t p e. \<not> lock_held s \<and> command_state s = Some c \<and> c \<noteq> []
                \<and> value_template s = Some t
                \<and> p = py_str (case fst (check_output_or_log sh c (timeout s) (world a)) of
                                 None \<Rightarrow> PNone | Some out \<Rightarrow> PStr out)
                \<and> t p = Inl e
              \<longrightarrow> trace (update_entity_state sh a)
                    = trace s @ [Log INFO ''Running command: %s'' [ArgStr command],
                                 CallShell command (timeout s) True,
                                 Log ERROR ''Command failed: %s'' [ArgStr command],
                                 Log INFO ''Running state value command: %s'' [ArgStr c],
                                 CheckOutput c (timeout s),
                                 Render p, Raises e]
                  \<and> attr_is_on (update_entity_state sh a) = attr_is_on s
                  \<and> process_updates (update_entity_state sh a) = Some False
                  \<and> surfaced (update_entity_state sh a) = surfaced s @ [e])"
proof -
  note r = refresh_after_action [OF assms(2)]
  note r3 = r [THEN conjunct2, THEN conjunct2, THEN conjunct1]
  note r4 = r [THEN conjunct2, THEN conjunct2, THEN conjunct2, THEN conjunct1]
  note r5 = r [THEN conjunct2, THEN conjunct2, THEN conjunct2, THEN conjunct2]
  have at: "attr_is_on a = attr_is_on s"
    using assms by (simp add: turn_action_attr)
  have tr: "trace a = trace s @ [Log INFO ''Running command: %s'' [ArgStr command],
                                 CallShell command (timeout s) True,
                                 Log ERROR ''Command failed: %s'' [ArgStr command]]"
    using assms by (simp add: turn_action_trace)
  have pu: "process_updates a = process_updates s"
    by (simp add: assms(2))
  have su: "surfaced a = surfaced s"
    by (simp add: assms(2))
  have on: "command = command_on s \<and> target
              \<longrightarrow> async_turn_on sh s = update_entity_state sh a"
    by (simp add: async_turn_on_def assms(2))
  have off: "command = command_off s \<and> \<not> target
              \<longrightarrow> async_turn_off sh s = update_entity_state sh a"
    by (simp add: async_turn_off_def assms(2))
  have held: "lock_held s \<longrightarrow> update_entity_state sh a = emit (poll_warning s) a"
    using r by blast
  have none: "\<not> lock_held s \<and> \<not> truthy (command_state s)
              \<longrightarrow> update_entity_state sh a = a\<lparr>process_updates := Some False\<rparr>"
    using r by blast
  have code: "\<forall>c p. \<not> lock_held s \<and> command_state s = Some c \<and> c \<noteq> []
                \<and> value_template s = None
                \<and> p = py_str (PBool
                        (fst (call_shell_with_timeout sh c (timeout s) False (world a)) = 0))
              \<longrightarrow> trace (update_entity_state sh a)
                    = trace s @ [Log INFO ''Running command: %s'' [ArgStr command],
                                 CallShell command (timeout s) True,
                                 Log ERROR ''Command failed: %s'' [ArgStr command],
                                 Log INFO ''Running state code command: %s'' [ArgStr c],
                                 CallShell c (timeout s) False,
                                 ProcessManualData p, UpdateHaState True]
                  \<and> attr_is_on (update_entity_state sh a) = state_interpret p None
                  \<and> surfaced (update_entity_state sh a) = surfaced s"
    using r3 by (auto simp: tr)
  have val: "\<forall>c t p v. \<not> lock_held s \<and> command_state s = Some c \<and> c \<noteq> []
                \<and> value_template s = Some t
                \<and> p = py_str (case fst (check_output_or_log sh c (timeout s) (world a)) of
                                 None \<Rightarrow> PNone | Some out \<Rightarrow> PStr out)
                \<and> t p = Inr v
              \<longrightarrow> trace (update_entity_state sh a)
                    = trace s @ [Log INFO ''Running command: %s'' [ArgStr command],
                                 CallShell command (timeout s) True,
                                 Log ERROR ''Command failed: %s'' [ArgStr command],
                                 Log INFO ''Running state value command: %s'' [ArgStr c],
                                 CheckOutput c (timeout s),
                                 Render p, ProcessManualData p, UpdateHaState True]
                  \<and> attr_is_on (update_entity_state sh a) = state_interpret p v
                  \<and> surfaced (update_entity_state sh a) = surfaced s"
    using r4 by (auto simp: tr)
  have rais: "\<forall>c t p e. \<not> lock_held s \<and> command_state s = Some c \<and> c \<noteq> []
                \<and> value_template s = Some t
                \<and> p = py_str (case fst (check_output_or_log sh c (timeout s) (world a)) of
                                 None \<Rightarrow> PNone | Some out \<Rightarrow> PStr out)
                \<and> t p = Inl e
              \<longrightarrow> trace (update_entity_state sh a)
                    = trace s @ [Log INFO ''Running command: %s'' [ArgStr command],
                                 CallShell command (timeout s) True,
                                 Log ERROR ''Command failed: %s'' [ArgStr command],
                                 Log INFO ''Running state value command: %s'' [ArgStr c],
                                 CheckOutput c (timeout s),
                                 Render p, Raises e]
                  \<and> attr_is_on (update_entity_state sh a) = attr_is_on s
                  \<and> process_updates (update_entity_state sh a) = Some False
                  \<and> surfaced (update_entity_state sh a) = surfaced s @ [e]"
    using r5 by (auto simp: tr at)
  show ?thesis
    using at pu tr su on off held none code val rais
    by (intro conjI) assumption+
qed

lemmas eval_defs = example_defs update_defs query_defs turn_defs async_turn_on_def
  async_turn_off_def emit_def state_interpret_def lock_held_def surfaced_def poll_warning_def
  Let_def

theorem failed_action_witness:
  "fst (call_shell_with_timeout on_fails_shell ''lamp on'' (timeout code_switch) True
         (world code_switch)) \<noteq> 0
   \<and> trace (async_turn_on on_fails_shell code_switch)
       = [Log INFO ''Running command: %s'' [ArgStr ''lamp on''],
          CallShell ''lamp on'' 15 True,
          Log ERROR ''Command failed: %s'' [ArgStr ''lamp on''],
          Log INFO ''Running state code command: %s'' [ArgStr ''lamp state''],
          CallShell ''lamp state'' 15 False,
          ProcessManualData ''True'', UpdateHaState True]
   \<and> attr_is_on (async_turn_on on_fails_shell code_switch) = Some True
   \<and> surfaced (async_turn_on on_fails_shell code_switch) = []
   \<and> trace (async_turn_off (fixed_shell 1 None) (assumed_switch\<lparr>process_updates := Some True\<rparr>))
       = [Log INFO ''Running command: %s'' [ArgStr ''lamp off''],
          CallShell ''lamp off'' 15 True,
          Log ERROR ''Command failed: %s'' [ArgStr ''lamp off''],
          poll_warning assumed_switch]
   \<and> attr_is_on (async_turn_off (fixed_shell 1 None)
         (assumed_switch\<lparr>process_updates := Some True\<rparr>)) = Some False"
  using failed_action [where sh = on_fails_shell and command = "''lamp on''" and s = code_switch
          and target = True and a = "turn_action on_fails_shell ''lamp on'' True code_switch"]
        failed_action [where sh = "fixed_shell 1 None" and command = "''lamp off''"
          and s = "assumed_switch\<lparr>process_updates := Some True\<rparr>" and target = False
          and a = "turn_action (fixed_shell 1 None) ''lamp off'' False
                     (assumed_switch\<lparr>process_updates := Some True\<rparr>)"]
  by (simp add: eval_defs)

text \<open>
  C5 as stated fails: the on command of \<open>raising_switch\<close> exits with 1, the
  refresh that follows captures no output, the template raises on the text
  \<^verbatim>\<open>"None"\<close>, and the exception reaches the caller of \<^verbatim>\<open>async_turn_on\<close>.
\<close>

theorem failed_action_can_raise:
  "call_shell_with_timeout (fixed_shell 1 None) (command_on raising_switch)
     (timeout raising_switch) True () = (1, ())
   \<and> surfaced raising_switch = []
   \<and> surfaced (async_turn_on (fixed_shell 1 None) raising_switch) = [PyError ''ValueError'']"
  by (simp add: eval_defs)

text \<open>
  C6: \<^verbatim>\<open>async_turn_on\<close> runs the on command through
  \<^verbatim>\<open>call_shell_with_timeout\<close> (exit code only, nothing captured); when the
  command exits with 0 and there is no state command, the cached state becomes
  On and the host is notified (\<^verbatim>\<open>async_schedule_update_ha_state\<close>). Then, whatever
  the exit code was, the guarded refresh runs on the resulting state: with the
  lock held it is dropped with one warning; with the lock free it takes and
  releases the lock, and with a state command it runs the state query, sets
  the state from it and tells the host (or lets the exception of a raising
  render through). \<^verbatim>\<open>async_turn_off\<close> does the same with the off command and Off.
\<close>

theorem turn_on_off:
  assumes "a = turn_action sh command target s"
  shows "trace a
           = trace s @ [Log INFO ''Running command: %s'' [ArgStr command],
                        CallShell command (timeout s) True]
               @ (if fst (call_shell_with_timeout sh command (timeout s) True (world s)) \<noteq> 0
                  then [Log ERROR ''Command failed: %s'' [ArgStr command]]
                  else if truthy (command_state s) then [] else [ScheduleUpdateHaState])
         \<and> (fst (call_shell_with_timeout sh command (timeout s) True (world s)) = 0
              \<and> assumed_state s
              \<longrightarrow> attr_is_on a = Some target)
         \<and> process_updates a = process_updates s
         \<and> (command = command_on s \<and> target
              \<longrightarrow> async_turn_on sh s = update_entity_state sh a)
         \<and> (command = command_off s \<and> \<not> target
              \<longrightarrow> async_turn_off sh s = update_entity_state sh a)
         \<and> (lock_held s \<longrightarrow> update_entity_state sh a = emit (poll_warning s) a)
         \<and> (\<not> lock_held s \<and> \<not> truthy (command_state s)
              \<longrightarrow> update_entity_state sh a = a\<lparr>process_updates := Some False\<rparr>)
         \<and> (\<forall>c p. \<not> lock_held s \<and> command_state s = Some c \<and> c \<noteq> []
                \<and> value_template s = None
                \<and> p = py_str (PBool
                        (fst (call_shell_with_timeout sh c (timeout s) False (world a)) = 0))
              \<longrightarrow> trace (update_entity_state sh a)
                    = trace a @ [Log INFO ''Running state code command: %s'' [ArgStr c],
                                 CallShell c (timeout s) False,
                                 ProcessManualData p, UpdateHaState True]
                  \<and> attr_is_on (update_entity_state sh a) = state_interpret p None
                  \<and> process_updates (update_entity_state sh a) = Some False
                  \<and> surfaced (update_entity_state sh a) = surfaced s)
         \<and> (\<forall>c t p v. \<not> lock_held s \<and> command_state s = Some c \<and> c \<noteq> []
                \<and> value_template s = Some t
                \<and> p = py_str (case fst (check_output_or_log sh c (timeout s) (world a)) of
                                 None \<Rightarrow> PNone | Some out \<Rightarrow> PStr out)
                \<and> t p = Inr v
              \<longrightarrow> trace (update_entity_state sh a)
                    = trace a @ [Log INFO ''Running state value command: %s'' [ArgStr c],
                                 CheckOutput c (timeout s),
                                 Render p, ProcessManualData p, UpdateHaState True]
                  \<and> attr_is_on (update_entity_state sh a) = state_interpret p v
                  \<and> process_updates (update_entity_state sh a) = Some False
                  \<and> surfaced (update_entity_state sh a) = surfaced s)
         \<and> (\<forall>c t p e. \<not> lock_held s \<and> command_state s = Some c \<and> c \<noteq> []
                \<and> value_template s = Some t
                \<and> p = py_str (case fst (check_output_or_log sh c (timeout s) (world a)) of
                                 None \<Rightarrow> PNone | Some out \<Rightarrow> PStr out)
                \<and> t p = Inl e
              \<longrightarrow> trace (update_entity_state sh a)
                    = trace a @ [Log INFO ''Running state value command: %s'' [ArgStr c],
                                 CheckOutput c (timeout s),
                                 Render p, Raises e]
                  \<and> attr_is_on (update_entity_state sh a) = attr_is_on a
                  \<and> process_updates (update_entity_state sh a) = Some False
                  \<and> surfaced (update_entity_state sh a) = surfaced s @ [e])"
proof -
  note r = refresh_after_action [OF assms]
  note r1 = r [THEN conjunct1]
  note r2 = r [THEN conjunct2, THEN conjunct1]
  note r3 = r [THEN conjunct2, THEN conjunct2, THEN conjunct1]
  note r4 = r [THEN conjunct2, THEN conjunct2, THEN conjunct2, THEN conjunct1]
  note r5 = r [THEN conjunct2, THEN conjunct2, THEN conjunct2, THEN conjunct2]
  have tr: "trace a
           = trace s @ [Log INFO ''Running command: %s'' [ArgStr command],
                        CallShell command (timeout s) True]
               @ (if fst (call_shell_with_timeout sh command (timeout s) True (world s)) \<noteq> 0
                  then [Log ERROR ''Command failed: %s'' [ArgStr command]]
                  else if truthy (command_state s) then [] else [ScheduleUpdateHaState])"
    by (simp add: assms turn_action_trace)
  have at: "(fst (call_shell_with_timeout sh command (timeout s) True (world s)) = 0
              \<and> assumed_state s
              \<longrightarrow> attr_is_on a = Some target)"
    by (simp add: assms turn_action_attr assumed_state_def)
  have pu: "process_updates a = process_updates s"
    by (simp add: assms)
  have on: "(command = command_on s \<and> target
              \<longrightarrow> async_turn_on sh s = update_entity_state sh a)"
    by (simp add: async_turn_on_def assms)
  have off: "(command = command_off s \<and> \<not> target
              \<longrightarrow> async_turn_off sh s = update_entity_state sh a)"
    by (simp add: async_turn_off_def assms)
  show ?thesis
    using tr at pu on off r1 r2 r3 r4 r5
    by (intro conjI) assumption+
qed

theorem turn_on_off_witness:
  "trace (async_turn_on (fixed_shell 0 None) code_switch)
     = [Log INFO ''Running command: %s'' [ArgStr ''lamp on''],
        CallShell ''lamp on'' 15 True,
        Log INFO ''Running state code command: %s'' [ArgStr ''lamp state''],
        CallShell ''lamp state'' 15 False,
        ProcessManualData ''True'', UpdateHaState True]
   \<and> attr_is_on (async_turn_on (fixed_shell 0 None) code_switch) = Some True
   \<and> process_updates (async_turn_on (fixed_shell 0 None) code_switch) = Some False
   \<and> trace (async_turn_off (fixed_shell 1 None) code_switch)
     = [Log INFO ''Running command: %s'' [ArgStr ''lamp off''],
        CallShell ''lamp off'' 15 True,
        Log ERROR ''Command failed: %s'' [ArgStr ''lamp off''],
        Log INFO ''Running state code command: %s'' [ArgStr ''lamp state''],
        CallShell ''lamp state'' 15 False,
        ProcessManualData ''False'', UpdateHaState True]
   \<and> trace (async_turn_on (fixed_shell 0 None) (code_switch\<lparr>process_updates := Some True\<rparr>))
     = [Log INFO ''Running command: %s'' [ArgStr ''lamp on''],
        CallShell ''lamp on'' 15 True,
        poll_warning code_switch]
   \<and> trace (async_turn_on (fixed_shell 0 None) assumed_switch)
     = [Log INFO ''Running command: %s'' [ArgStr ''lamp on''],
        CallShell ''lamp on'' 15 True, ScheduleUpdateHaState]
   \<and> attr_is_on (async_turn_on (fixed_shell 0 None) assumed_switch) = Some True
   \<and> attr_is_on (async_turn_off (fixed_shell 0 None)
        (assumed_switch\<lparr>attr_is_on := Some True\<rparr>)) = Some False"
  using turn_on_off [where sh = "fixed_shell 0 None" and command = "''lamp on''"
          and s = code_switch and target = True
          and a = "turn_action (fixed_shell 0 None) ''lamp on'' True code_switch"]
        turn_on_off [where sh = "fixed_shell 1 None" and command = "''lamp off''"
          and s = code_switch and target = False
          and a = "turn_action (fixed_shell 1 None) ''lamp off'' False code_switch"]
        turn_on_off [where sh = "fixed_shell 0 None" and command = "''lamp on''"
          and s = "code_switch\<lparr>process_updates := Some True\<rparr>" and target = True
          and a = "turn_action (fixed_shell 0 None) ''lamp on'' True
                     (code_switch\<lparr>process_updates := Some True\<rparr>)"]
        turn_on_off [where sh = "fixed_shell 0 None" and command = "''lamp on''"
          and s = assumed_switch and target = True
          and a = "turn_action (fixed_shell 0 None) ''lamp on'' True assumed_switch"]
  by (simp add: eval_defs)

subsection \<open>How the state command is run\<close>

text \<open>
  C8: in a refresh with a state command, a configured value template makes the
  command run through \<^verbatim>\<open>check_output_or_log\<close> (output captured) and the
  payload is rendered by the template: the value it returns enters the
  decision, and an exception it raises ends the refresh with the state as it
  was. Without a template the command runs through
  \<^verbatim>\<open>call_shell_with_timeout\<close> only (exit code, nothing captured, nothing
  rendered).
\<close>

theorem refresh_query_mode:
  assumes "command_state s = Some c" "c \<noteq> []"
  shows "(\<forall>t payload v. value_template s = Some t
            \<and> payload = py_str (case fst (check_output_or_log sh c (timeout s) (world s)) of
                                 None \<Rightarrow> PNone | Some out \<Rightarrow> PStr out)
            \<and> t payload = Inr v
            \<longrightarrow> trace (async_update sh s)
                  = trace s @ [Log INFO ''Running state value command: %s'' [ArgStr c],
                               CheckOutput c (timeout s),
                               Render payload, ProcessManualData payload, UpdateHaState True]
                \<and> attr_is_on (async_update sh s) = state_interpret payload v)
         \<and> (\<forall>t payload e. value_template s = Some t
            \<and> payload = py_str (case fst (check_output_or_log sh c (timeout s) (world s)) of
                                 None \<Rightarrow> PNone | Some out \<Rightarrow> PStr out)
            \<and> t payload = Inl e
            \<longrightarrow> trace (async_update sh s)
                  = trace s @ [Log INFO ''Running state value command: %s'' [ArgStr c],
                               CheckOutput c (timeout s),
                               Render payload, Raises e]
                \<and> attr_is_on (async_update sh s) = attr_is_on s)
         \<and> (\<forall>payload. value_template s = None
            \<and> payload = py_str (PBool
                    (fst (call_shell_with_timeout sh c (timeout s) False (world s)) = 0))
            \<longrightarrow> trace (async_update sh s)
                  = trace s @ [Log INFO ''Running state code command: %s'' [ArgStr c],
                               CallShell c (timeout s) False,
                               ProcessManualData payload, UpdateHaState True]
                \<and> attr_is_on (async_update sh s) = state_interpret payload None)"
proof -
  have v: "trace (async_update sh s)
             = trace s @ [Log INFO ''Running state value command: %s'' [ArgStr c],
                          CheckOutput c (timeout s),
                          Render payload, ProcessManualData payload, UpdateHaState True]
           \<and> attr_is_on (async_update sh s) = state_interpret payload v"
    if "value_template s = Some t"
      "payload = py_str (case fst (check_output_or_log sh c (timeout s) (world s)) of
                           None \<Rightarrow> PNone | Some out \<Rightarrow> PStr out)"
      "t payload = Inr v"
    for t payload v
    using assms that
      async_update_value_mode [where s = s and c = c and t = t and p = payload and v = v
        and sh = sh]
    by simp
  have r: "trace (async_update sh s)
             = trace s @ [Log INFO ''Running state value command: %s'' [ArgStr c],
                          CheckOutput c (timeout s),
                          Render payload, Raises e]
           \<and> attr_is_on (async_update sh s) = attr_is_on s"
    if "value_template s = Some t"
      "payload = py_str (case fst (check_output_or_log sh c (timeout s) (world s)) of
                           None \<Rightarrow> PNone | Some out \<Rightarrow> PStr out)"
      "t payload = Inl e"
    for t payload e
    using assms that
      async_update_raise_mode [where s = s and c = c and t = t and p = payload and e = e
        and sh = sh]
    by simp
  have n: "trace (async_update sh s)
             = trace s @ [Log INFO ''Running state code command: %s'' [ArgStr c],
                          CallShell c (timeout s) False,
                          ProcessManualData payload, UpdateHaState True]
           \<and> attr_is_on (async_update sh s) = state_interpret payload None"
    if "value_template s = None"
      "payload = py_str (PBool
                  (fst (call_shell_with_timeout sh c (timeout s) False (world s)) = 0))"
    for payload
    using assms that
      async_update_code_mode [where s = s and c = c and p = payload and sh = sh]
    by simp
  show ?thesis
    using v r n by blast
qed

theorem refresh_query_mode_witness:
  "trace (async_update (fixed_shell 0 (Some ''5'')) raising_switch)
     = [Log INFO ''Running state value command: %s'' [ArgStr ''lamp state''],
        CheckOutput ''lamp state'' 15,
        Render ''5'', ProcessManualData ''5'', UpdateHaState True]
   \<and> attr_is_on (async_update (fixed_shell 0 (Some ''5'')) raising_switch) = Some True
   \<and> trace (async_update (fixed_shell 1 None) raising_switch)
     = [Log INFO ''Running state value command: %s'' [ArgStr ''lamp state''],
        CheckOutput ''lamp state'' 15,
        Render ''None'', Raises (PyError ''ValueError'')]
   \<and> trace (async_update (fixed_shell 0 (Some ''on'')) code_switch)
     = [Log INFO ''Running state code command: %s'' [ArgStr ''lamp state''],
        CallShell ''lamp state'' 15 False,
        ProcessManualData ''True'', UpdateHaState True]"
  using refresh_query_mode [of raising_switch "''lamp state''" "fixed_shell 0 (Some ''5'')"]
        refresh_query_mode [of raising_switch "''lamp state''" "fixed_shell 1 None"]
        refresh_query_mode [of code_switch "''lamp state''" "fixed_shell 0 (Some ''on'')"]
  by (simp add: eval_defs)

subsection \<open>The poll guard\<close>

lemma update_begin_held:
  assumes "lock_held s"
  shows "update_begin s = (None, emit (poll_warning s) s)"
  using assms by (simp add: update_begin_def lock_held_def)

lemma update_begin_free:
  assumes "\<not> lock_held s"
  shows "update_begin s =
           (if truthy (command_state s)
            then (Some InQuery, query_begin (s\<lparr>process_updates := Some True\<rparr>))
            else (None, s\<lparr>process_updates := Some False\<rparr>))"
  using assms by (simp add: update_begin_def lock_held_def Let_def)

lemma query_begin_lock [simp]: "lock_held (query_begin s) = lock_held s"
  by (simp add: query_begin_def lock_held_def split: option.splits)

lemma switch_begin_lock [simp]: "lock_held (switch_begin command s) = lock_held s"
  by (simp add: lock_held_def)

lemma update_begin_cases:
  "(lock_held s \<and> fst (update_begin s) = None \<and> lock_held (snd (update_begin s)))
   \<or> (\<not> lock_held s \<and> fst (update_begin s) = Some InQuery \<and> lock_held (snd (update_begin s)))
   \<or> (\<not> lock_held s \<and> fst (update_begin s) = None \<and> \<not> lock_held (snd (update_begin s)))"
  by (cases "lock_held s") (simp_all add: update_begin_held update_begin_free)

lemma switch_resume_lock [simp]:
  "lock_held (snd (switch_resume sh command s)) = lock_held s"
  by (cases "fst (call_shell_with_timeout sh command (timeout s) True (world s)) = 0")
     (simp_all add: switch_resume_ok switch_resume_failed lock_held_def)

lemma optimistic_lock [simp]: "lock_held (optimistic success target s) = lock_held s"
  by (simp add: optimistic_def lock_held_def)

lemma query_end_lock [simp]: "lock_held (snd (query_end sh s)) = lock_held s"
  by (auto simp: query_end_def lock_held_def split: option.splits prod.splits)

lemma async_update_resume_lock [simp]: "lock_held (async_update_resume r s) = lock_held s"
  by (auto simp: async_update_resume_def lock_held_def Let_def split: sum.splits)

lemma query_state_segments: "query_state sh s = query_end sh (query_begin s)"
  by (auto simp: query_state_def query_state_value_def query_state_code_def query_begin_def
        query_end_def emit_def Let_def split: option.splits prod.splits)

lemma bodies_append [simp]: "bodies (fs @ gs) = bodies fs + bodies gs"
  by (simp add: bodies_def)

lemma bodies_Nil [simp]: "bodies [] = 0"
  by (simp add: bodies_def)

lemma bodies_Cons [simp]: "bodies (f # fs) = (if in_body f then 1 else 0) + bodies fs"
  by (simp add: bodies_def)

lemma bodies_split:
  assumes "i < length fs"
  shows "bodies fs = bodies (take i fs) + (if in_body (fs ! i) then 1 else 0) + bodies (drop (Suc i) fs)"
proof -
  have "fs = take i fs @ [fs ! i] @ drop (Suc i) fs"
    using assms by (simp add: id_take_nth_drop)
  then have "bodies fs = bodies (take i fs @ [fs ! i] @ drop (Suc i) fs)"
    by simp
  then show ?thesis by simp
qed

lemma bodies_remove:
  assumes "i < length fs"
  shows "bodies (take i fs @ drop (Suc i) fs) + (if in_body (fs ! i) then 1 else 0) = bodies fs"
  using bodies_split [OF assms] by simp

lemma bodies_replace:
  assumes "i < length fs"
  shows "bodies (fs[i := f]) + (if in_body (fs ! i) then 1 else 0)
           = bodies fs + (if in_body f then 1 else 0)"
proof -
  have "fs[i := f] = take i fs @ [f] @ drop (Suc i) fs"
    using assms by (simp add: upd_conv_take_nth_drop)
  then show ?thesis using bodies_split [OF assms] by simp
qed

lemma step_Tick_inv:
  assumes "guard_inv (s, fs)"
  shows "guard_inv (step sh Tick (s, fs))"
  using assms update_begin_cases [of s]
  by (cases "update_begin s") (auto simp: guard_inv_def spawn_def)

lemma step_CallTurn_inv:
  assumes "guard_inv (s, fs)"
  shows "guard_inv (step sh (CallTurn b) (s, fs))"
  using assms by (simp add: guard_inv_def)

lemma resume_InSwitch_inv:
  assumes "guard_inv (s, fs)" "i < length fs" "fs ! i = InSwitch b"
  shows "guard_inv (case resume sh (fs ! i) s of (f, s') \<Rightarrow> (s', continue i f fs))"
proof -
  define s1 where "s1 = optimistic (fst (switch_resume sh (if b then command_on s else command_off s) s)) b
                          (snd (switch_resume sh (if b then command_on s else command_off s) s))"
  have r: "resume sh (fs ! i) s = update_begin s1"
    by (simp add: assms(3) s1_def split: prod.splits)
  have l: "lock_held s1 = lock_held s"
    by (simp add: s1_def)
  have rm: "bodies (take i fs @ drop (Suc i) fs) = bodies fs"
    using bodies_remove [OF assms(2)] assms(3) by simp
  have rp: "bodies (fs[i := InQuery]) = bodies fs + 1"
    using bodies_replace [OF assms(2), of InQuery] assms(3) by simp
  show ?thesis
    using assms(1) update_begin_cases [of s1] l rm rp
    by (cases "update_begin s1") (auto simp: r guard_inv_def continue_def)
qed

lemma resume_InQuery_inv:
  assumes "guard_inv (s, fs)" "i < length fs" "fs ! i = InQuery"
  shows "guard_inv (case resume sh (fs ! i) s of (f, s') \<Rightarrow> (s', continue i f fs))"
proof -
  obtain r s1 where q: "query_end sh s = (r, s1)"
    by (cases "query_end sh s")
  have l: "lock_held s1 = lock_held s"
    using query_end_lock [of sh s] q by simp
  have rp: "bodies (fs[i := InCommit]) = bodies fs"
    using bodies_replace [OF assms(2), of InCommit] assms(3) by simp
  have rm: "bodies (take i fs @ drop (Suc i) fs) + 1 = bodies fs"
    using bodies_remove [OF assms(2)] assms(3) by simp
  show ?thesis
  proof (cases "render_value (py_str r) s1")
    case (Inl e)
    then show ?thesis
      using assms(1) rm l q
      by (auto simp: assms(3) guard_inv_def continue_def split: if_splits)
  next
    case (Inr v)
    then show ?thesis
      using assms(1) rp l q
      by (simp add: assms(3) guard_inv_def continue_def)
  qed
qed

lemma resume_InCommit_inv:
  assumes "guard_inv (s, fs)" "i < length fs" "fs ! i = InCommit"
  shows "guard_inv (case resume sh (fs ! i) s of (f, s') \<Rightarrow> (s', continue i f fs))"
proof -
  have rm: "bodies (take i fs @ drop (Suc i) fs) + 1 = bodies fs"
    using bodies_remove [OF assms(2)] assms(3) by simp
  show ?thesis
    using assms(1) rm
    by (auto simp: assms(3) guard_inv_def continue_def split: if_splits)
qed

lemma step_inv:
  assumes "guard_inv c"
  shows "guard_inv (step sh l c)"
proof (cases c)
  case (Pair s fs)
  then have inv: "guard_inv (s, fs)"
    using assms by simp
  show ?thesis
  proof (cases l)
    case Tick
    have "guard_inv (step sh Tick (s, fs))"
      using inv by (rule step_Tick_inv)
    then show ?thesis by (simp only: Pair Tick)
  next
    case (CallTurn b)
    have "guard_inv (step sh (CallTurn b) (s, fs))"
      using inv by (rule step_CallTurn_inv)
    then show ?thesis by (simp only: Pair CallTurn)
  next
    case (Resume i)
    show ?thesis
    proof (cases "i < length fs")
      case False
      then show ?thesis using inv Pair Resume by simp
    next
      case True
      have "guard_inv (case resume sh (fs ! i) s of (f, s') \<Rightarrow> (s', continue i f fs))"
      proof (cases "fs ! i")
        case (InSwitch b)
        with inv True show ?thesis by (rule resume_InSwitch_inv)
      next
        case InQuery
        with inv True show ?thesis by (rule resume_InQuery_inv)
      next
        case InCommit
        with inv True show ?thesis by (rule resume_InCommit_inv)
      qed
      then show ?thesis using Pair Resume True by simp
    qed
  qed
qed

lemma exec_inv:
  assumes "guard_inv c"
  shows "guard_inv (exec sh ls c)"
  using assms by (induction ls arbitrary: c) (simp_all add: step_inv)

lemma guard_inv_initial:
  assumes "\<not> lock_held s"
  shows "guard_inv (s, [])"
  using assms by (simp add: guard_inv_def)

lemma poll_warning_emit [simp]: "poll_warning (emit e s) = poll_warning s"
  by (simp add: poll_warning_def)

text \<open>
  A coroutine that is never interleaved with another one computes what the
  sequential functions compute: the timer callback, \<^verbatim>\<open>async_turn_on\<close> and
  \<^verbatim>\<open>async_turn_off\<close>, each resumed until it ends.
\<close>

lemma step_resume_turn:
  "step sh (Resume 0)
     (switch_begin (if target then command_on s else command_off s) s, [InSwitch target])
   = (case update_begin (turn_action sh (if target then command_on s else command_off s) target s)
      of (f, s') \<Rightarrow> (s', continue 0 f [InSwitch target]))"
  by (simp add: turn_action_def do_switch_def split: prod.splits)

lemma run_body:
  assumes "\<not> lock_held x" "truthy (command_state x)"
  shows "exec sh [Resume 0, Resume 0] (query_begin (x\<lparr>process_updates := Some True\<rparr>), [InQuery])
         = (update_entity_state sh x, [])"
proof -
  obtain r s1 where q: "query_end sh (query_begin (x\<lparr>process_updates := Some True\<rparr>)) = (r, s1)"
    by (cases "query_end sh (query_begin (x\<lparr>process_updates := Some True\<rparr>))")
  then have q': "query_state sh (x\<lparr>process_updates := Some True\<rparr>) = (r, s1)"
    by (simp add: query_state_segments)
  have seq: "update_entity_state sh x
               = (async_update_resume r s1)\<lparr>process_updates := Some False\<rparr>"
    using assms q' by (simp add: update_entity_state_free async_update_def)
  show ?thesis
  proof (cases "render_value (py_str r) s1")
    case (Inl e)
    have st1: "step sh (Resume 0) (query_begin (x\<lparr>process_updates := Some True\<rparr>), [InQuery])
                 = ((async_update_resume r s1)\<lparr>process_updates := Some False\<rparr>, [])"
      using q Inl by (simp add: continue_def)
    have st2: "step sh (Resume 0) ((async_update_resume r s1)\<lparr>process_updates := Some False\<rparr>, [])
                 = ((async_update_resume r s1)\<lparr>process_updates := Some False\<rparr>, [])"
      by simp
    show ?thesis
      by (simp only: exec.simps st1 st2 seq)
  next
    case (Inr v)
    have st1: "step sh (Resume 0) (query_begin (x\<lparr>process_updates := Some True\<rparr>), [InQuery])
                 = (async_update_resume r s1, [InCommit])"
      using q Inr by (simp add: continue_def)
    have st2: "step sh (Resume 0) (async_update_resume r s1, [InCommit])
                 = ((async_update_resume r s1)\<lparr>process_updates := Some False\<rparr>, [])"
      by (simp add: continue_def)
    show ?thesis
      by (simp only: exec.simps st1 st2 seq)
  qed
qed

lemma run_update:
  assumes "\<not> lock_held x"
  shows "exec sh [Resume 0, Resume 0]
           (case update_begin x of (f, s') \<Rightarrow> (s', continue 0 f [InSwitch target]))
         = (update_entity_state sh x, [])"
proof (cases "truthy (command_state x)")
  case True
  have "(case update_begin x of (f, s') \<Rightarrow> (s', continue 0 f [InSwitch target]))
          = (query_begin (x\<lparr>process_updates := Some True\<rparr>), [InQuery])"
    using True by (simp add: update_begin_free [OF assms] continue_def)
  then show ?thesis
    using run_body [OF assms True] by simp
next
  case False
  then show ?thesis
    using assms
    by (simp add: update_begin_free [OF assms] continue_def update_entity_state_def
          async_update_def lock_held_def Let_def)
qed

lemma run_turn_on:
  assumes "\<not> lock_held s"
  shows "exec sh [CallTurn True, Resume 0, Resume 0, Resume 0] (s, []) = (async_turn_on sh s, [])"
proof -
  have "\<not> lock_held (turn_action sh (command_on s) True s)"
    using assms by simp
  then show ?thesis
    using step_resume_turn [of sh True s] run_update [of "turn_action sh (command_on s) True s" sh True]
    by (simp add: async_turn_on_def)
qed

lemma run_turn_off:
  assumes "\<not> lock_held s"
  shows "exec sh [CallTurn False, Resume 0, Resume 0, Resume 0] (s, []) = (async_turn_off sh s, [])"
proof -
  have "\<not> lock_held (turn_action sh (command_off s) False s)"
    using assms by simp
  then show ?thesis
    using step_resume_turn [of sh False s] run_update [of "turn_action sh (command_off s) False s" sh False]
    by (simp add: async_turn_off_def)
qed

lemma run_tick:
  assumes "\<not> lock_held s"
  shows "exec sh [Tick, Resume 0, Resume 0] (s, []) = (update_entity_state sh s, [])"
proof (cases "truthy (command_state s)")
  case True
  have "step sh Tick (s, []) = (query_begin (s\<lparr>process_updates := Some True\<rparr>), [InQuery])"
    using True by (simp add: update_begin_free [OF assms] spawn_def)
  then show ?thesis
    using run_body [OF assms True] by simp
next
  case False
  then show ?thesis
    using assms
    by (simp add: update_begin_free [OF assms] spawn_def update_entity_state_def
          async_update_def lock_held_def Let_def)
qed

text \<open>
  C3: in every interleaving of timer ticks, action calls and completions of
  awaited jobs that starts with the lock free and no coroutine suspended, at
  most one execution of the guarded refresh body is in progress, and one is in
  progress exactly when the lock is held. While one is in progress, a timer
  tick and a refresh initiated by \<^verbatim>\<open>async_turn_on\<close> / \<^verbatim>\<open>async_turn_off\<close> are
  dropped: no coroutine is left suspended for them, and the only effect is one
  warning that carries the name of the switch and its scan interval.
\<close>

theorem poll_guard:
  assumes "\<not> lock_held s0" and "exec sh ls (s0, []) = (s, fs)"
  shows "bodies fs \<le> 1
         \<and> (bodies fs = 1 \<longleftrightarrow> lock_held s)
         \<and> (bodies fs = 1 \<longrightarrow>
               step sh Tick (s, fs) = (emit (poll_warning s) s, fs)
               \<and> update_entity_state sh s = emit (poll_warning s) s
               \<and> (\<forall>i b. i < length fs \<and> fs ! i = InSwitch b \<longrightarrow>
                     (\<exists>s1. step sh (Resume i) (s, fs)
                             = (emit (poll_warning s1) s1, take i fs @ drop (Suc i) fs)
                           \<and> lock_held s1)))
         \<and> poll_warning s
             = Log WARNING
                 ''Updating Command Line Switch %s took longer than the scheduled update interval %s''
                 [ArgStr (name s), ArgInterval (scan_interval s)]"
proof -
  have "guard_inv (exec sh ls (s0, []))"
    using assms(1) by (intro exec_inv guard_inv_initial)
  then have inv: "bodies fs = (if lock_held s then 1 else 0)"
    by (simp add: assms(2) guard_inv_def)
  have tick: "step sh Tick (s, fs) = (emit (poll_warning s) s, fs)" if "lock_held s"
    using that by (simp add: update_begin_held spawn_def)
  have call: "\<exists>s1. step sh (Resume i) (s, fs)
                     = (emit (poll_warning s1) s1, take i fs @ drop (Suc i) fs)
                   \<and> lock_held s1"
    if h: "lock_held s" and i: "i < length fs" "fs ! i = InSwitch b" for i b
  proof -
    define s1 where "s1 = optimistic (fst (switch_resume sh (if b then command_on s else command_off s) s)) b
                            (snd (switch_resume sh (if b then command_on s else command_off s) s))"
    have l: "lock_held s1"
      using h by (simp add: s1_def)
    have "resume sh (fs ! i) s = update_begin s1"
      by (simp add: i(2) s1_def split: prod.splits)
    then have "step sh (Resume i) (s, fs)
                 = (emit (poll_warning s1) s1, take i fs @ drop (Suc i) fs)"
      using i(1) l by (simp add: update_begin_held continue_def)
    with l show ?thesis by blast
  qed
  show ?thesis
    using inv tick call
    by (auto simp: update_entity_state_held poll_warning_def)
qed

theorem poll_guard_witness:
  "\<not> lock_held code_switch
   \<and> exec (fixed_shell 0 None) [Tick, Tick, CallTurn True, Resume 1, Tick] (code_switch, [])
       = (code_switch
            \<lparr>process_updates := Some True,
              trace := [Log INFO ''Running state code command: %s'' [ArgStr ''lamp state''],
                        CallShell ''lamp state'' 15 False,
                        poll_warning code_switch,
                        Log INFO ''Running command: %s'' [ArgStr ''lamp on''],
                        CallShell ''lamp on'' 15 True,
                        poll_warning code_switch,
                        poll_warning code_switch]\<rparr>,
          [InQuery])
   \<and> bodies [InQuery] = 1"
  using poll_guard [of code_switch "fixed_shell 0 None" "[Tick, Tick, CallTurn True, Resume 1, Tick]"]
  by (simp add: example_defs lock_held_def update_begin_def query_begin_def switch_begin_def
        switch_resume_def optimistic_def emit_def poll_warning_def spawn_def continue_def Let_def)

end
